theory Spec2Isabelle
  imports Complex_Main "HOL-Library.Word" "HOL-Library.Multiset" "HOL-Library.Sublist"
    "HOL-Library.AList"
begin

unbundle bit_operations_syntax

section \<open>Calendar arithmetic (DateUtils)\<close>

text \<open>
  A calendar-date string \<^verbatim>\<open>YYYY-MM-DD\<close> is modelled by the number of days between
  1970-01-01 and that date: \<^verbatim>\<open>new Date(s)\<close> reads such a string as midnight UTC of
  that day, and \<^verbatim>\<open>toISOString().split('T')[0]\<close> writes the UTC day back, so the two
  conversions are inverse on canonical strings and the functions below only ever step
  whole days.  \<^verbatim>\<open>getDay()\<close> and \<^verbatim>\<open>setDate()\<close> work in local time; the model fixes
  the runtime's zone to one without daylight saving whose local day at 00:00 UTC is the
  UTC day (Asia/Taipei, the zone of the holiday table, or UTC).  Strings that are not
  valid dates, and dates outside the range of \<^verbatim>\<open>Date\<close>, are outside the model.
\<close>

type_synonym date = int

definition isoDate :: "int \<Rightarrow> int \<Rightarrow> int \<Rightarrow> date" where
  \<comment> \<open>the day number of the proleptic Gregorian date \<open>y-m-d\<close>, as \<^verbatim>\<open>Date.parse\<close> gives it
      (divided by 86400000)\<close>
  "isoDate y m d =
     (let y' = (if m \<le> 2 then y - 1 else y);
          era = y' div 400;
          yoe = y' - era * 400;
          doy = (153 * (if m > 2 then m - 3 else m + 9) + 2) div 5 + d - 1;
          doe = yoe * 365 + yoe div 4 - yoe div 100 + doy
      in era * 146097 + doe - 719468)"

definition getDay :: "date \<Rightarrow> int" where
  \<comment> \<open>0 = Sunday, ..., 6 = Saturday; 1970-01-01 was a Thursday\<close>
  "getDay d = (d + 4) mod 7"

definition TAIWAN_HOLIDAYS :: "date list" where
  "TAIWAN_HOLIDAYS =
     [isoDate 2025 1 1,
      isoDate 2025 1 27, isoDate 2025 1 28, isoDate 2025 1 29, isoDate 2025 1 30,
      isoDate 2025 1 31,
      isoDate 2025 2 28,
      isoDate 2025 4 3, isoDate 2025 4 4,
      isoDate 2025 5 30,
      isoDate 2025 10 6,
      isoDate 2025 10 10,
      isoDate 2026 1 1,
      isoDate 2026 2 16, isoDate 2026 2 17, isoDate 2026 2 18, isoDate 2026 2 19,
      isoDate 2026 2 20,
      isoDate 2026 2 27,
      isoDate 2026 4 3, isoDate 2026 4 6,
      isoDate 2026 6 19,
      isoDate 2026 9 25,
      isoDate 2026 10 9]"

definition isWeekend :: "date \<Rightarrow> bool" where
  "isWeekend dateStr = (let day = getDay dateStr in day = 0 \<or> day = 6)"

definition isHoliday :: "date \<Rightarrow> bool" where
  "isHoliday dateStr = (dateStr \<in> set TAIWAN_HOLIDAYS)"

text \<open>The \<^verbatim>\<open>while (curDate <= endDate)\<close> loop of \<^verbatim>\<open>calculateWorkingDays\<close>.\<close>

function calculateWorkingDays_loop :: "date \<Rightarrow> date \<Rightarrow> int \<Rightarrow> int" where
  "calculateWorkingDays_loop curDate endDate count' =
     (if curDate \<le> endDate then
        (let dayOfWeek = getDay curDate;
             isOffDay = (dayOfWeek = 0 \<or> dayOfWeek = 6 \<or> isHoliday curDate)
         in calculateWorkingDays_loop (curDate + 1) endDate
              (if \<not> isOffDay then count' + 1 else count'))
      else count')"
  by pat_completeness auto
termination
  by (relation "measure (\<lambda>(c, e, n). nat (e + 1 - c))") auto

definition calculateWorkingDays :: "date \<Rightarrow> date \<Rightarrow> int" where
  "calculateWorkingDays start end = calculateWorkingDays_loop start end 0"

definition addDaysToDate :: "date \<Rightarrow> int \<Rightarrow> date" where
  "addDaysToDate dateStr days = dateStr + days"

text \<open>
  The \<^verbatim>\<open>for (let i = 0; i < 365; i++)\<close> loop of \<^verbatim>\<open>calculateEndDate\<close>.  Besides the
  date the model returns the number of loop bodies that were run.  The required
  number of working days is an integer, as the count that every caller passes.
\<close>

function calculateEndDate_loop ::
  "int \<Rightarrow> nat \<Rightarrow> date \<Rightarrow> int \<Rightarrow> date \<Rightarrow> date \<times> nat" where
  "calculateEndDate_loop requiredWorkingDays i currentDate workedDays lastValidDate =
     (if i < 365 then
        (let dateStr = currentDate;
             isOff = (isWeekend dateStr \<or> isHoliday dateStr);
             workedDays' = (if \<not> isOff then workedDays + 1 else workedDays);
             lastValidDate' = dateStr
         in if workedDays' \<ge> requiredWorkingDays then (lastValidDate', Suc i)
            else calculateEndDate_loop requiredWorkingDays (Suc i) (currentDate + 1)
                   workedDays' lastValidDate')
      else (lastValidDate, i))"
  by pat_completeness auto
termination
  by (relation "measure (\<lambda>(r, i, c, w, l). 365 - i)") auto

definition calculateEndDate_scan :: "date \<Rightarrow> int \<Rightarrow> date \<times> nat" where
  "calculateEndDate_scan startDateStr requiredWorkingDays =
     (if requiredWorkingDays \<le> 0 then (startDateStr, 0)
      else calculateEndDate_loop requiredWorkingDays 0 startDateStr 0 startDateStr)"

definition calculateEndDate :: "date \<Rightarrow> int \<Rightarrow> date" where
  "calculateEndDate startDateStr requiredWorkingDays =
     fst (calculateEndDate_scan startDateStr requiredWorkingDays)"


section \<open>Strings of the runtime\<close>

text \<open>
  A JavaScript string is a sequence of UTF-16 code units.  ASCII literals of the source
  are written \<open>ascii ''...''\<close>, the Chinese literals by their code units.  The case
  mappings and the locale comparison are the runtime's (full Unicode, ICU); the model
  takes them as a parameter.  \<^verbatim>\<open>trim\<close> is ECMAScript's: it strips white space and
  line terminators at both ends.
\<close>

type_synonym jsstring = "16 word list"

definition ascii :: "string \<Rightarrow> jsstring" where
  "ascii s = map (\<lambda>c. word_of_nat (of_char c)) s"

record Runtime =
  toUpperCase :: "jsstring \<Rightarrow> jsstring"
  toLowerCase :: "jsstring \<Rightarrow> jsstring"
  localeCompare :: "jsstring \<Rightarrow> jsstring \<Rightarrow> int"

definition isWhiteSpace :: "16 word \<Rightarrow> bool" where
  "isWhiteSpace c =
     (c \<in> set [0x9, 0xA, 0xB, 0xC, 0xD, 0x20, 0xA0, 0x1680, 0x2028, 0x2029, 0x202F,
                0x205F, 0x3000, 0xFEFF]
      \<or> (0x2000 \<le> c \<and> c \<le> 0x200A))"

definition trim :: "jsstring \<Rightarrow> jsstring" where
  "trim s = rev (dropWhile isWhiteSpace (rev (dropWhile isWhiteSpace s)))"

text \<open>\<^verbatim>\<open>r.includes(s)\<close>: \<open>s\<close> starts at some position of \<open>r\<close>.\<close>

fun str_includes :: "jsstring \<Rightarrow> jsstring \<Rightarrow> bool" where
  "str_includes [] s = (s = [])"
| "str_includes (c # r) s = (prefix s (c # r) \<or> str_includes r s)"

text \<open>The Chinese literals of the source.\<close>

definition str_unassigned :: jsstring where
  "str_unassigned = [0x672A, 0x6307, 0x6D3E]"

definition str_everyone :: jsstring where
  "str_everyone = [0x5168, 0x9AD4]"

definition str_last_phase :: jsstring where
  "str_last_phase = [0x5167, 0x90E8, 0x6700, 0x5F8C, 0x968E, 0x6BB5]"

definition str_tasks_suffix :: jsstring where
  \<comment> \<open>the text after the count in a role header's sub-label, with its leading blank\<close>
  "str_tasks_suffix = [0x20, 0x9805, 0x4EFB, 0x52D9]"

section \<open>Data model (types.ts)\<close>

record TaskAssignment =
  assign_id :: jsstring
  role :: jsstring
  subLabel :: "jsstring option"
  startDate :: date
  endDate :: date
  progress :: int
  color :: jsstring

record Task =
  task_id :: jsstring
  name :: jsstring
  assignments :: "TaskAssignment list"

datatype GroupBy = GroupNone | Assignee

definition TAILWIND_COLORS :: "jsstring list" where
  "TAILWIND_COLORS =
     [ascii ''bg-blue-500'',
      ascii ''bg-emerald-500'',
      ascii ''bg-indigo-500'',
      ascii ''bg-rose-500'',
      ascii ''bg-amber-500'',
      ascii ''bg-purple-500'',
      ascii ''bg-cyan-500'',
      ascii ''bg-fuchsia-500'',
      ascii ''bg-orange-500'',
      ascii ''bg-teal-500'',
      ascii ''bg-gray-500'',
      ascii ''bg-white border border-gray-300 shadow-sm'']"

text \<open>
  \<^verbatim>\<open>hash = role.charCodeAt(i) + ((hash << 5) - hash)\<close>: the shift converts its operand
  to a 32-bit integer and wraps, the subtraction and the addition are on numbers and do
  not wrap.  The numbers of the source are doubles; they are integers here, which is
  exact while the hash stays below \<open>2 ^ 53\<close> (strings of up to some four million code
  units).
\<close>

definition shl5 :: "int \<Rightarrow> int" where
  "shl5 h = sint (push_bit 5 (word_of_int h :: 32 word))"

definition hash_step :: "int \<Rightarrow> 16 word \<Rightarrow> int" where
  "hash_step hash c = uint c + (shl5 hash - hash)"

definition role_hash :: "jsstring \<Rightarrow> int" where
  "role_hash role' = foldl hash_step 0 role'"

definition getColorForRole :: "Runtime \<Rightarrow> jsstring \<Rightarrow> jsstring" where
  "getColorForRole rt role' =
     (let r = trim (toLowerCase rt role') in
      if str_includes r (ascii ''ui'') \<or> str_includes r [0x8A2D, 0x8A08] \<or>
         str_includes r (ascii ''design'') \<or> str_includes r (ascii ''art'')
      then ascii ''bg-rose-500''
      else if str_includes r (ascii ''fe'') \<or> str_includes r (ascii ''front'') \<or>
         str_includes r [0x524D, 0x7AEF] \<or> str_includes r (ascii ''app'') \<or>
         str_includes r (ascii ''web'')
      then ascii ''bg-blue-500''
      else if str_includes r (ascii ''be'') \<or> str_includes r (ascii ''back'') \<or>
         str_includes r [0x5F8C, 0x7AEF] \<or> str_includes r (ascii ''api'') \<or>
         str_includes r (ascii ''server'')
      then ascii ''bg-emerald-500''
      else if str_includes r (ascii ''pm'') \<or> str_includes r (ascii ''product'') \<or>
         str_includes r [0x5C08, 0x6848] \<or> str_includes r (ascii ''manager'')
      then ascii ''bg-purple-500''
      else if str_includes r (ascii ''qa'') \<or> str_includes r (ascii ''test'') \<or>
         str_includes r [0x6E2C, 0x8A66]
      then ascii ''bg-orange-500''
      else if str_includes r (ascii ''ux'') \<or> str_includes r (ascii ''brief'') \<or>
         str_includes r (ascii ''research'') \<or> str_includes r [0x7814, 0x7A76]
      then ascii ''bg-amber-500''
      else if str_includes r (ascii ''data'') \<or> str_includes r [0x8CC7, 0x6599]
      then ascii ''bg-cyan-500''
      else if r = ascii ''rd'' \<or> r = ascii ''all'' \<or> r = str_everyone
      then ascii ''bg-gray-500''
      else (let hash = role_hash role';
                index = \<bar>hash\<bar> mod int (length TAILWIND_COLORS)
            in TAILWIND_COLORS ! nat index))"


section \<open>The timeline component (GanttChart)\<close>

subsection \<open>State, rows and effects\<close>

datatype DragType = TASK | ASSIGNMENT

record DragState =
  drag_type :: DragType
  drag_id :: jsstring
  parentId :: "jsstring option"

record BarDragState =
  assignmentId :: jsstring
  bar_parentId :: jsstring
  startX :: int
  originalStart :: date
  originalEnd :: date
  originalWorkingDays :: int
  currentStart :: date
  currentEnd :: date
  hasMoved :: bool
  taskReference :: Task

definition DAY_WIDTH :: int where
  "DAY_WIDTH = 50"

text \<open>
  A row of one render pass.  The \<^verbatim>\<open>uniqueId\<close> of the source is the list key of the
  rendering library (in role mode it ends in \<^verbatim>\<open>Math.random()\<close>); no handler reads
  it and it is left out.  An optional field that is \<^verbatim>\<open>undefined\<close> is \<open>None\<close>.
\<close>

record RenderRow =
  label :: jsstring
  row_subLabel :: "jsstring option"
  isHeader :: bool
  row_startDate :: "date option"
  row_endDate :: "date option"
  row_progress :: "int option"
  row_color :: "jsstring option"
  originalTask :: Task
  originalAssignment :: "TaskAssignment option"

text \<open>
  The properties of the component: \<open>onTaskReorder\<close> is optional in the source and only
  its presence matters here; \<^verbatim>\<open>onTaskClick\<close> is always there.
\<close>

record GanttChartProps =
  tasks :: "Task list"
  onTaskReorder :: bool
  groupBy :: GroupBy
  readOnly :: bool

text \<open>The two state cells of the component.\<close>

record GanttState =
  draggedItem :: "DragState option"
  draggedBar :: "BarDragState option"

text \<open>What a handler does besides updating the state.\<close>

datatype Effect =
    TaskClick Task
  | TaskReorder "Task list"
  | PreventDefault

text \<open>An optional value that is there (and, for the objects held here, truthy).\<close>

fun isSome :: "'a option \<Rightarrow> bool" where
  "isSome (Some x) = True"
| "isSome None = False"

text \<open>\<^verbatim>\<open>Array.prototype.findIndex\<close>: \<open>None\<close> stands for \<open>-1\<close>.\<close>

fun findIndex :: "('a \<Rightarrow> bool) \<Rightarrow> 'a list \<Rightarrow> nat option" where
  "findIndex P [] = None"
| "findIndex P (x # xs) =
     (if P x then Some 0 else map_option Suc (findIndex P xs))"

text \<open>
  \<^verbatim>\<open>xs.splice(i, 1)\<close> leaves the list without its element \<open>i\<close>;
  \<^verbatim>\<open>xs.splice(i, 0, x)\<close> puts \<open>x\<close> before position \<open>i\<close>, at the end when \<open>i\<close> is
  past the end.
\<close>

definition splice_remove :: "nat \<Rightarrow> 'a list \<Rightarrow> 'a list" where
  "splice_remove i xs = take i xs @ drop (Suc i) xs"

definition splice_insert :: "nat \<Rightarrow> 'a \<Rightarrow> 'a list \<Rightarrow> 'a list" where
  "splice_insert i x xs = take i xs @ x # drop i xs"

subsection \<open>Rescheduling a bar with the pointer\<close>

text \<open>
  \<^verbatim>\<open>handleBarMouseDown\<close>.  Both branches of its \<^verbatim>\<open>if (readOnly)\<close> store the same
  session.  The pointer position \<^verbatim>\<open>clientX\<close> is an integer number of pixels.
\<close>

definition handleBarMouseDown ::
  "GanttChartProps \<Rightarrow> int \<Rightarrow> RenderRow \<Rightarrow> GanttState \<Rightarrow> GanttState \<times> Effect list" where
  "handleBarMouseDown props clientX row st =
     (case (originalAssignment row, row_startDate row, row_endDate row) of
        (Some a, Some s, Some e) \<Rightarrow>
          (let workingDays = calculateWorkingDays s e in
           (st\<lparr>draggedBar := Some
                 \<lparr>assignmentId = assign_id a,
                  bar_parentId = task_id (originalTask row),
                  startX = clientX,
                  originalStart = s,
                  originalEnd = e,
                  originalWorkingDays = workingDays,
                  currentStart = s,
                  currentEnd = e,
                  hasMoved = False,
                  taskReference = originalTask row\<rparr>\<rparr>, []))
      | _ \<Rightarrow> (st, []))"

text \<open>
  The window listeners exist only while a bar session is open.  \<^verbatim>\<open>Math.round\<close> rounds
  to the nearest integer, a half upwards, as \<^const>\<open>round\<close> does.
\<close>

definition handleMouseMove ::
  "GanttChartProps \<Rightarrow> int \<Rightarrow> GanttState \<Rightarrow> GanttState \<times> Effect list" where
  "handleMouseMove props clientX st =
     (case draggedBar st of
        None \<Rightarrow> (st, [])
      | Some bar \<Rightarrow>
          if readOnly props then (st, [])
          else
            (let deltaX = clientX - startX bar;
                 deltaDays = round (rat_of_int deltaX / rat_of_int DAY_WIDTH)
             in if deltaDays = 0 then (st, [])
                else
                  (let newStartDate = addDaysToDate (originalStart bar) deltaDays;
                       newEndDate =
                         (if originalWorkingDays bar > 0
                          then calculateEndDate newStartDate (originalWorkingDays bar)
                          else addDaysToDate (originalEnd bar) deltaDays)
                   in (st\<lparr>draggedBar := Some (bar\<lparr>hasMoved := True,
                                                   currentStart := newStartDate,
                                                   currentEnd := newEndDate\<rparr>)\<rparr>, []))))"

definition handleMouseUp ::
  "GanttChartProps \<Rightarrow> GanttState \<Rightarrow> GanttState \<times> Effect list" where
  "handleMouseUp props st =
     (case draggedBar st of
        None \<Rightarrow> (st, [])
      | Some bar \<Rightarrow>
          (st\<lparr>draggedBar := None\<rparr>,
           if \<not> hasMoved bar then [TaskClick (taskReference bar)]
           else if onTaskReorder props \<and> \<not> readOnly props then
             (case findIndex (\<lambda>t. task_id t = bar_parentId bar) (tasks props) of
                None \<Rightarrow> []
              | Some taskIndex \<Rightarrow>
                  (let task = tasks props ! taskIndex;
                       newAssignments =
                         map (\<lambda>a. if assign_id a = assignmentId bar
                                   then a\<lparr>startDate := currentStart bar,
                                          endDate := currentEnd bar\<rparr>
                                   else a) (assignments task);
                       newTasks = (tasks props)
                                    [taskIndex := task\<lparr>assignments := newAssignments\<rparr>]
                   in [TaskReorder newTasks]))
           else []))"

subsection \<open>Reordering rows by drag and drop\<close>

definition handleDragStart ::
  "GanttChartProps \<Rightarrow> RenderRow \<Rightarrow> GanttState \<Rightarrow> GanttState \<times> Effect list" where
  "handleDragStart props row st =
     (if readOnly props \<or> isSome (draggedBar st) then (st, [PreventDefault])
      else if isHeader row then
        (st\<lparr>draggedItem := Some \<lparr>drag_type = TASK, drag_id = task_id (originalTask row),
                                  parentId = None\<rparr>\<rparr>, [])
      else
        (case originalAssignment row of
           Some a \<Rightarrow>
             (st\<lparr>draggedItem := Some \<lparr>drag_type = ASSIGNMENT, drag_id = assign_id a,
                                       parentId = Some (task_id (originalTask row))\<rparr>\<rparr>, [])
         | None \<Rightarrow> (st, [])))"

text \<open>
  \<^verbatim>\<open>handleDrop\<close>.  Every \<^verbatim>\<open>return\<close> before the last line leaves the function
  without reaching \<^verbatim>\<open>setDraggedItem(null)\<close>, so the state is returned as it was.
\<close>

definition handleDrop ::
  "GanttChartProps \<Rightarrow> RenderRow \<Rightarrow> GanttState \<Rightarrow> GanttState \<times> Effect list" where
  "handleDrop props targetRow st =
     (case draggedItem st of
        None \<Rightarrow> (st, [PreventDefault])
      | Some item \<Rightarrow>
          if readOnly props then (st, [PreventDefault])
          else if \<not> onTaskReorder props then (st, [PreventDefault])
          else if drag_type item = TASK \<and> isHeader targetRow then
            (if drag_id item = task_id (originalTask targetRow) then (st, [PreventDefault])
             else
               (case (findIndex (\<lambda>t. task_id t = drag_id item) (tasks props),
                      findIndex (\<lambda>t. task_id t = task_id (originalTask targetRow))
                        (tasks props)) of
                  (Some fromIndex, Some toIndex) \<Rightarrow>
                    (let removed = tasks props ! fromIndex;
                         newTasks = splice_insert toIndex removed
                                      (splice_remove fromIndex (tasks props))
                     in (st\<lparr>draggedItem := None\<rparr>, [PreventDefault, TaskReorder newTasks]))
                | _ \<Rightarrow> (st, [PreventDefault])))
          else if drag_type item = ASSIGNMENT \<and> \<not> isHeader targetRow \<and>
                  isSome (originalAssignment targetRow) then
            (if parentId item \<noteq> Some (task_id (originalTask targetRow))
             then (st, [PreventDefault])
             else if Some (drag_id item) = map_option assign_id (originalAssignment targetRow)
             then (st, [PreventDefault])
             else
               (case findIndex (\<lambda>t. Some (task_id t) = parentId item) (tasks props) of
                  None \<Rightarrow> (st, [PreventDefault])
                | Some taskIndex \<Rightarrow>
                    (let task = tasks props ! taskIndex;
                         assignments' = assignments task
                     in case (findIndex (\<lambda>a. assign_id a = drag_id item) assignments',
                              findIndex (\<lambda>a. Some (assign_id a) =
                                   map_option assign_id (originalAssignment targetRow))
                                assignments') of
                          (Some fromIndex, Some toIndex) \<Rightarrow>
                            (let removed = assignments' ! fromIndex;
                                 assignments'' = splice_insert toIndex removed
                                                   (splice_remove fromIndex assignments');
                                 updatedTask = task\<lparr>assignments := assignments''\<rparr>;
                                 newTasks = (tasks props)[taskIndex := updatedTask]
                             in (st\<lparr>draggedItem := None\<rparr>,
                                 [PreventDefault, TaskReorder newTasks]))
                        | _ \<Rightarrow> (st, [PreventDefault]))))
          else (st\<lparr>draggedItem := None\<rparr>, [PreventDefault]))"

text \<open>
  The pointer and drag events the component reacts to, and a run of them.  The rows
  pass a drag or a drop on to the handlers only when they are draggable; the bars
  always pass a pointer-down on.  In a run the state that one handler leaves is the
  state that the next handler sees, and the properties stay as they are.
\<close>

definition isDraggable :: "GanttChartProps \<Rightarrow> bool" where
  "isDraggable props = (groupBy props = GroupNone \<and> \<not> readOnly props)"

datatype Event =
    BarMouseDown int RenderRow
  | MouseMove int
  | MouseUp
  | DragStart RenderRow
  | Drop RenderRow

fun handle :: "GanttChartProps \<Rightarrow> Event \<Rightarrow> GanttState \<Rightarrow> GanttState \<times> Effect list" where
  "handle props (BarMouseDown x row) st = handleBarMouseDown props x row st"
| "handle props (MouseMove x) st = handleMouseMove props x st"
| "handle props MouseUp st = handleMouseUp props st"
| "handle props (DragStart row) st =
     (if isDraggable props then handleDragStart props row st else (st, []))"
| "handle props (Drop row) st =
     (if isDraggable props then handleDrop props row st else (st, []))"

fun run :: "GanttChartProps \<Rightarrow> Event list \<Rightarrow> GanttState \<Rightarrow> GanttState \<times> Effect list" where
  "run props [] st = (st, [])"
| "run props (e # es) st =
     (case handle props e st of
        (st', out) \<Rightarrow> (case run props es st' of (st'', out') \<Rightarrow> (st'', out @ out')))"


subsection \<open>Row projection\<close>

datatype js_error = TypeError

text \<open>
  The role buckets are the own properties of an object literal \<^verbatim>\<open>{}\<close>, kept here in
  insertion order.  A read \<^verbatim>\<open>groups[name]\<close> of a name that is not an own property
  goes to \<^verbatim>\<open>Object.prototype\<close>; for the names below it finds a function (an object
  for \<^verbatim>\<open>__proto__\<close>), which is truthy and has no \<^verbatim>\<open>push\<close>.
\<close>

type_synonym group_item = "Task \<times> TaskAssignment"
type_synonym groups = "(jsstring \<times> group_item list) list"

definition Object_prototype_keys :: "jsstring list" where
  "Object_prototype_keys =
     [ascii ''constructor'', ascii ''__defineGetter__'', ascii ''__defineSetter__'',
      ascii ''hasOwnProperty'', ascii ''__lookupGetter__'', ascii ''__lookupSetter__'',
      ascii ''isPrototypeOf'', ascii ''propertyIsEnumerable'', ascii ''toString'',
      ascii ''valueOf'', ascii ''__proto__'', ascii ''toLocaleString'']"

definition addToGroup :: "jsstring \<Rightarrow> group_item \<Rightarrow> groups \<Rightarrow> js_error + groups" where
  "addToGroup groupName item' gs =
     (case map_of gs groupName of
        Some items \<Rightarrow> Inr (AList.update groupName (items @ [item']) gs)
      | None \<Rightarrow>
          if groupName \<in> set Object_prototype_keys then Inl TypeError
          else Inr (gs @ [(groupName, [item'])]))"

text \<open>A \<^verbatim>\<open>forEach\<close> whose body may throw: the first exception ends the loop.\<close>

fun forEach :: "('a \<Rightarrow> 's \<Rightarrow> js_error + 's) \<Rightarrow> 'a list \<Rightarrow> 's \<Rightarrow> js_error + 's" where
  "forEach f [] s = Inr s"
| "forEach f (x # xs) s = (case f x s of Inl e \<Rightarrow> Inl e | Inr s' \<Rightarrow> forEach f xs s')"

definition groupAssignment ::
  "Runtime \<Rightarrow> Task \<Rightarrow> TaskAssignment \<Rightarrow> groups \<Rightarrow> js_error + groups" where
  "groupAssignment rt task assign gs =
     (let rawRole = (if role assign = [] then str_unassigned else role assign);
          r = toUpperCase rt (trim rawRole)
      in if r = ascii ''RD'' then
           (case addToGroup (ascii ''FE'') (task, assign) gs of
              Inl e \<Rightarrow> Inl e
            | Inr gs' \<Rightarrow> addToGroup (ascii ''BE'') (task, assign) gs')
         else if r = ascii ''ALL'' \<or> r = str_everyone then
           forEach (\<lambda>targetRole. addToGroup targetRole (task, assign))
             [ascii ''FE'', ascii ''BE'', ascii ''UI'', ascii ''UX'', ascii ''PM''] gs
         else addToGroup (trim rawRole) (task, assign) gs)"

definition buildGroups :: "Runtime \<Rightarrow> Task list \<Rightarrow> js_error + groups" where
  "buildGroups rt ts =
     forEach (\<lambda>task. forEach (groupAssignment rt task) (assignments task)) ts []"

text \<open>
  \<^verbatim>\<open>Object.keys\<close> lists the keys that are array indices (canonical decimal
  numbers below \<open>2 ^ 32 - 1\<close>) first, in ascending numeric order, then the other keys in
  insertion order.
\<close>

definition isDigit :: "16 word \<Rightarrow> bool" where
  "isDigit c = (0x30 \<le> c \<and> c \<le> 0x39)"

definition digitsValue :: "jsstring \<Rightarrow> int" where
  "digitsValue ds = foldl (\<lambda>n c. 10 * n + uint (c - 0x30)) 0 ds"

definition isArrayIndex :: "jsstring \<Rightarrow> bool" where
  "isArrayIndex k =
     (k \<noteq> [] \<and> list_all isDigit k \<and> (if hd k = 0x30 then k = [0x30] else True) \<and>
      digitsValue k < 4294967295)"

definition objectKeys :: "groups \<Rightarrow> jsstring list" where
  "objectKeys gs =
     (let ks = map fst gs
      in sort_key digitsValue (filter isArrayIndex ks) @
         filter (\<lambda>k. \<not> isArrayIndex k) ks)"

text \<open>
  The comparator of the bucket names.  \<^verbatim>\<open>match(/^(\d+)/)\<close> with \<^verbatim>\<open>parseInt\<close> reads
  the leading decimal digits; the value is exact below \<open>2 ^ 53\<close>.
\<close>

definition priorityRoles :: "jsstring list" where
  "priorityRoles =
     [str_last_phase, ascii ''Last Phase'', ascii ''PM'', ascii ''UI'', ascii ''UX'',
      ascii ''FE'', ascii ''BE'', ascii ''QA'', ascii ''RD'']"

definition leadingNumber :: "jsstring \<Rightarrow> int option" where
  "leadingNumber s =
     (let ds = takeWhile isDigit s in if ds = [] then None else Some (digitsValue ds))"

definition compareKeys :: "Runtime \<Rightarrow> jsstring \<Rightarrow> jsstring \<Rightarrow> int" where
  "compareKeys rt a b =
     (let cleanA = trim a;
          cleanB = trim b;
          idxA = findIndex (\<lambda>p. toLowerCase rt p = toLowerCase rt cleanA) priorityRoles;
          idxB = findIndex (\<lambda>p. toLowerCase rt p = toLowerCase rt cleanB) priorityRoles
      in case (idxA, idxB) of
           (Some i, Some j) \<Rightarrow> int i - int j
         | (Some i, None) \<Rightarrow> - 1
         | (None, Some j) \<Rightarrow> 1
         | (None, None) \<Rightarrow>
             (case (leadingNumber cleanA, leadingNumber cleanB) of
                (Some m, Some n) \<Rightarrow> m - n
              | (Some m, None) \<Rightarrow> - 1
              | (None, Some n) \<Rightarrow> 1
              | (None, None) \<Rightarrow> localeCompare rt cleanA cleanB))"

text \<open>
  \<^verbatim>\<open>Array.prototype.sort\<close> is stable; with a consistent comparator its result is the
  one of any stable sort, here insertion from the right.
\<close>

fun insert_by :: "('a \<Rightarrow> 'a \<Rightarrow> int) \<Rightarrow> 'a \<Rightarrow> 'a list \<Rightarrow> 'a list" where
  "insert_by cmp x [] = [x]"
| "insert_by cmp x (y # ys) =
     (if cmp x y \<le> 0 then x # y # ys else y # insert_by cmp x ys)"

definition sort_by :: "('a \<Rightarrow> 'a \<Rightarrow> int) \<Rightarrow> 'a list \<Rightarrow> 'a list" where
  "sort_by cmp xs = foldr (insert_by cmp) xs []"

text \<open>The decimal digits of a number, as a template literal prints it.\<close>

function decimal :: "nat \<Rightarrow> jsstring" where
  "decimal n =
     (if n < 10 then [0x30 + word_of_nat n]
      else decimal (n div 10) @ [0x30 + word_of_nat (n mod 10)])"
  by pat_completeness auto
termination
  by (relation "measure (\<lambda>n. n)") auto

definition leafDates :: "GanttState \<Rightarrow> TaskAssignment \<Rightarrow> date \<times> date" where
  \<comment> \<open>the live dates of the bar being dragged, the stored ones otherwise\<close>
  "leafDates st assign =
     (case draggedBar st of
        Some bar \<Rightarrow>
          if assignmentId bar = assign_id assign then (currentStart bar, currentEnd bar)
          else (startDate assign, endDate assign)
      | None \<Rightarrow> (startDate assign, endDate assign))"

definition featureLeaf :: "GanttState \<Rightarrow> Task \<Rightarrow> TaskAssignment \<Rightarrow> RenderRow" where
  "featureLeaf st task assign =
     \<lparr>label = (if role assign = [] then str_unassigned else role assign),
      row_subLabel = Some (case subLabel assign of None \<Rightarrow> [] | Some l \<Rightarrow> l),
      isHeader = False,
      row_startDate = Some (fst (leafDates st assign)),
      row_endDate = Some (snd (leafDates st assign)),
      row_progress = Some (progress assign),
      row_color = Some (color assign),
      originalTask = task,
      originalAssignment = Some assign\<rparr>"

definition featureRows :: "GanttState \<Rightarrow> Task \<Rightarrow> RenderRow list" where
  "featureRows st task =
     \<lparr>label = name task, row_subLabel = None, isHeader = True,
      row_startDate = None, row_endDate = None, row_progress = None, row_color = None,
      originalTask = task, originalAssignment = None\<rparr>
     # map (featureLeaf st task) (assignments task)"

definition roleLeaf :: "Runtime \<Rightarrow> GanttState \<Rightarrow> group_item \<Rightarrow> RenderRow" where
  "roleLeaf rt st item' =
     (case item' of (task, assign) \<Rightarrow>
        (let r = toUpperCase rt (role assign);
             isSpecial = (r = ascii ''RD'' \<or> r = ascii ''ALL'' \<or> r = str_everyone);
             prefix' = (if isSpecial then ascii ''['' @ role assign @ ascii ''] '' else []);
             displayLabel = prefix' @ name task
         in \<lparr>label = displayLabel,
             row_subLabel = Some (case subLabel assign of None \<Rightarrow> [] | Some l \<Rightarrow> l),
             isHeader = False,
             row_startDate = Some (fst (leafDates st assign)),
             row_endDate = Some (snd (leafDates st assign)),
             row_progress = Some (progress assign),
             row_color = Some (color assign),
             originalTask = task,
             originalAssignment = Some assign\<rparr>))"

definition roleRows :: "Runtime \<Rightarrow> GanttState \<Rightarrow> groups \<Rightarrow> jsstring \<Rightarrow> RenderRow list" where
  "roleRows rt st gs roleName =
     (case map_of gs roleName of
        None \<Rightarrow> []
      | Some items \<Rightarrow>
          if items = [] then []
          else
            \<lparr>label = roleName,
             row_subLabel = Some (decimal (length items) @ str_tasks_suffix),
             isHeader = True,
             row_startDate = None, row_endDate = None, row_progress = None,
             row_color = None,
             originalTask = fst (hd items), originalAssignment = None\<rparr>
            # map (roleLeaf rt st) items)"

definition rows :: "Runtime \<Rightarrow> GanttChartProps \<Rightarrow> GanttState \<Rightarrow> js_error + RenderRow list" where
  "rows rt props st =
     (if groupBy props = GroupNone then
        Inr (concat (map (featureRows st) (tasks props)))
      else
        (case buildGroups rt (tasks props) of
           Inl e \<Rightarrow> Inl e
         | Inr gs \<Rightarrow>
             (let sortedKeys = sort_by (compareKeys rt) (objectKeys gs)
              in Inr (concat (map (roleRows rt st gs) sortedKeys)))))"

text \<open>A runtime whose case mappings change the ASCII letters only, for concrete runs.\<close>

definition asciiUpper :: "jsstring \<Rightarrow> jsstring" where
  "asciiUpper s = map (\<lambda>c. if 0x61 \<le> c \<and> c \<le> 0x7A then c - 0x20 else c) s"

definition asciiLower :: "jsstring \<Rightarrow> jsstring" where
  "asciiLower s = map (\<lambda>c. if 0x41 \<le> c \<and> c \<le> 0x5A then c + 0x20 else c) s"

fun codeUnitCompare :: "jsstring \<Rightarrow> jsstring \<Rightarrow> int" where
  "codeUnitCompare [] [] = 0"
| "codeUnitCompare [] (y # ys) = - 1"
| "codeUnitCompare (x # xs) [] = 1"
| "codeUnitCompare (x # xs) (y # ys) =
     (if x < y then - 1 else if y < x then 1 else codeUnitCompare xs ys)"

definition asciiRuntime :: Runtime where
  "asciiRuntime =
     \<lparr>toUpperCase = asciiUpper, toLowerCase = asciiLower, localeCompare = codeUnitCompare\<rparr>"


section \<open>Snapshot decoding (ProjectBoard)\<close>

text \<open>
  The values that \<^verbatim>\<open>JSON.parse\<close> returns, and \<^verbatim>\<open>undefined\<close> for a property that
  is not there.  A number is a finite value, an infinity (a literal too large for a
  double) or not a number.  An object is the list of its own properties.
\<close>

datatype jsnumber = Finite rat | PosInfinity | NegInfinity | NaN

datatype jsval =
    JUndefined
  | JNull
  | JBool bool
  | JNum jsnumber
  | JStr jsstring
  | JArr "jsval list"
  | JObj "(jsstring \<times> jsval) list"



text \<open>\<^verbatim>\<open>k in v\<close>: a type error unless \<open>v\<close> is an object or an array.\<close>

fun hasProp :: "jsstring \<Rightarrow> jsval \<Rightarrow> js_error + bool" where
  "hasProp k (JObj kvs) = Inr (map_of kvs k \<noteq> None)"
| "hasProp k (JArr vs) = Inr False"
| "hasProp k v = Inl TypeError"


text \<open>Sequencing of steps that may throw.\<close>

definition bindE :: "js_error + 'a \<Rightarrow> ('a \<Rightarrow> js_error + 'b) \<Rightarrow> js_error + 'b" where
  "bindE m f = (case m of Inl e \<Rightarrow> Inl e | Inr x \<Rightarrow> f x)"






text \<open>
  The shape of a Feature and of an Assignment as JSON values, after the interfaces
  \<^verbatim>\<open>Task\<close> and \<^verbatim>\<open>TaskAssignment\<close>, and of their key-shortened forms.
\<close>

fun isJStr :: "jsval \<Rightarrow> bool" where
  "isJStr (JStr s) = True"
| "isJStr v = False"

fun isJNum :: "jsval \<Rightarrow> bool" where
  "isJNum (JNum n) = True"
| "isJNum v = False"

definition field :: "(jsstring \<times> jsval) list \<Rightarrow> string \<Rightarrow> jsval" where
  "field kvs k = (case map_of kvs (ascii k) of None \<Rightarrow> JUndefined | Some v \<Rightarrow> v)"

fun isAssignmentJson :: "jsval \<Rightarrow> bool" where
  "isAssignmentJson (JObj kvs) =
     (isJStr (field kvs ''id'') \<and> isJStr (field kvs ''role'') \<and>
      (field kvs ''subLabel'' = JUndefined \<or> isJStr (field kvs ''subLabel'')) \<and>
      isJStr (field kvs ''startDate'') \<and> isJStr (field kvs ''endDate'') \<and>
      isJNum (field kvs ''progress'') \<and> isJStr (field kvs ''color''))"
| "isAssignmentJson v = False"

fun isTaskJson :: "jsval \<Rightarrow> bool" where
  "isTaskJson (JObj kvs) =
     (isJStr (field kvs ''id'') \<and> isJStr (field kvs ''name'') \<and>
      (case field kvs ''assignments'' of
         JArr as \<Rightarrow> list_all isAssignmentJson as
       | _ \<Rightarrow> False))"
| "isTaskJson v = False"




section \<open>Working days\<close>


text \<open>
  What a session opened by a pointer-down on \<open>row\<close> at \<open>x0\<close> keeps for its whole life:
  the origin, the identifiers, the original dates and their count of working days.
\<close>

definition session_of :: "RenderRow \<Rightarrow> int \<Rightarrow> BarDragState \<Rightarrow> bool" where
  "session_of row x0 bar =
     (startX bar = x0 \<and> taskReference bar = originalTask row \<and>
      bar_parentId bar = task_id (originalTask row) \<and>
      map_option assign_id (originalAssignment row) = Some (assignmentId bar) \<and>
      row_startDate row = Some (originalStart bar) \<and>
      row_endDate row = Some (originalEnd bar) \<and>
      originalWorkingDays bar =
        calculateWorkingDays (originalStart bar) (originalEnd bar))"

section \<open>Sample data\<close>

text \<open>
  A small board for the concrete runs: the feature of the scenario of the specification
  with a front-end assignment from Thursday 2025-01-02 to Friday 2025-01-03 and a
  second assignment, and a feature whose only assignment runs from Monday 2025-01-06
  to Tuesday 2026-01-06.
\<close>

definition assignFE :: TaskAssignment where
  "assignFE =
     \<lparr>assign_id = ascii ''a1'', role = ascii ''FE'', subLabel = None,
      startDate = isoDate 2025 1 2, endDate = isoDate 2025 1 3, progress = 0,
      color = ascii ''bg-blue-500''\<rparr>"

definition assignBE :: TaskAssignment where
  "assignBE =
     \<lparr>assign_id = ascii ''a2'', role = ascii ''BE'', subLabel = None,
      startDate = isoDate 2025 1 6, endDate = isoDate 2025 1 8, progress = 50,
      color = ascii ''bg-emerald-500''\<rparr>"

definition assignLong :: TaskAssignment where
  "assignLong =
     \<lparr>assign_id = ascii ''a3'', role = ascii ''PM'', subLabel = None,
      startDate = isoDate 2025 1 6, endDate = isoDate 2026 1 6, progress = 0,
      color = ascii ''bg-purple-500''\<rparr>"

definition taskLogin :: Task where
  "taskLogin =
     \<lparr>task_id = ascii ''t1'', name = [0x767B, 0x5165], assignments = [assignFE, assignBE]\<rparr>"

definition taskProgramme :: Task where
  "taskProgramme =
     \<lparr>task_id = ascii ''t2'', name = ascii ''Programme'', assignments = [assignLong]\<rparr>"

definition board :: GanttChartProps where
  "board =
     \<lparr>tasks = [taskLogin, taskProgramme], onTaskReorder = True, groupBy = GroupNone,
      readOnly = False\<rparr>"

definition idle :: GanttState where
  "idle = \<lparr>draggedItem = None, draggedBar = None\<rparr>"

definition rowLoginHeader :: RenderRow where
  "rowLoginHeader = hd (featureRows idle taskLogin)"

definition rowProgrammeHeader :: RenderRow where
  "rowProgrammeHeader = hd (featureRows idle taskProgramme)"

definition rowFE :: RenderRow where
  "rowFE = featureLeaf idle taskLogin assignFE"

definition rowBE :: RenderRow where
  "rowBE = featureLeaf idle taskLogin assignBE"


text \<open>The values on which \<^verbatim>\<open>in\<close> does not throw.\<close>

fun isObject :: "jsval \<Rightarrow> bool" where
  "isObject (JObj kvs) = True"
| "isObject (JArr vs) = True"
| "isObject v = False"

text \<open>
  The buckets of an assignment in role mode, in the words of the specification: the
  role \<^verbatim>\<open>RD\<close> goes to the front-end and back-end buckets, \<^verbatim>\<open>ALL\<close> and its Chinese
  form to the five core roles, every other role to the bucket of its trimmed name.
\<close>

definition bucketNames :: "Runtime \<Rightarrow> TaskAssignment \<Rightarrow> jsstring list" where
  "bucketNames rt assign =
     (let rawRole = (if role assign = [] then str_unassigned else role assign);
          r = toUpperCase rt (trim rawRole)
      in if r = ascii ''RD'' then [ascii ''FE'', ascii ''BE'']
         else if r = ascii ''ALL'' \<or> r = str_everyone
         then [ascii ''FE'', ascii ''BE'', ascii ''UI'', ascii ''UX'', ascii ''PM'']
         else [trim rawRole])"

definition allAssignments :: "Task list \<Rightarrow> TaskAssignment list" where
  "allAssignments ts = concat (map assignments ts)"

definition leafCount :: "RenderRow list \<Rightarrow> nat" where
  "leafCount rs = length (filter (\<lambda>r. \<not> isHeader r) rs)"

text \<open>A feature with one assignment whose role is the name of a method of every object.\<close>

definition assignToString :: TaskAssignment where
  "assignToString =
     \<lparr>assign_id = ascii ''a9'', role = ascii ''toString'', subLabel = None,
      startDate = isoDate 2025 1 2, endDate = isoDate 2025 1 3, progress = 0,
      color = ascii ''bg-gray-500''\<rparr>"

definition taskExport :: Task where
  "taskExport =
     \<lparr>task_id = ascii ''t9'', name = ascii ''Export'', assignments = [assignToString]\<rparr>"

section \<open>Properties of the calendar arithmetic\<close>

text \<open>
  The loops are unfolded one step at a time in the proofs below, never by the
  simplifier on its own.
\<close>

declare calculateWorkingDays_loop.simps [simp del]
declare calculateEndDate_loop.simps [simp del]
declare decimal.simps [simp del]






























section \<open>The colour of a role\<close>

lemma palette_index_in_bounds:
  "nat (\<bar>h\<bar> mod int (length TAILWIND_COLORS)) < length TAILWIND_COLORS"
  by (simp add: TAILWIND_COLORS_def nat_less_iff)

lemma if_member: "a \<in> S \<Longrightarrow> b \<in> S \<Longrightarrow> (if c then a else b) \<in> S"
  by simp

lemma palette_members:
  "ascii ''bg-rose-500'' \<in> set TAILWIND_COLORS"
  "ascii ''bg-blue-500'' \<in> set TAILWIND_COLORS"
  "ascii ''bg-emerald-500'' \<in> set TAILWIND_COLORS"
  "ascii ''bg-purple-500'' \<in> set TAILWIND_COLORS"
  "ascii ''bg-orange-500'' \<in> set TAILWIND_COLORS"
  "ascii ''bg-amber-500'' \<in> set TAILWIND_COLORS"
  "ascii ''bg-cyan-500'' \<in> set TAILWIND_COLORS"
  "ascii ''bg-gray-500'' \<in> set TAILWIND_COLORS"
  by (simp_all add: TAILWIND_COLORS_def)

text \<open>
  Claim C10.  Whatever the role and whatever the case mapping of the runtime,
  \<^verbatim>\<open>getColorForRole\<close> returns an element of the palette, and the index computed from
  the hash is inside the palette.
\<close>

theorem getColorForRole_in_palette:
  "getColorForRole rt role' \<in> set TAILWIND_COLORS \<and>
   nat (\<bar>role_hash role'\<bar> mod int (length TAILWIND_COLORS)) < length TAILWIND_COLORS"
proof -
  have "TAILWIND_COLORS ! nat (\<bar>role_hash role'\<bar> mod int (length TAILWIND_COLORS))
        \<in> set TAILWIND_COLORS"
    by (rule nth_mem) (rule palette_index_in_bounds)
  then have "getColorForRole rt role' \<in> set TAILWIND_COLORS"
    unfolding getColorForRole_def Let_def
    by (intro if_member palette_members)
  then show ?thesis using palette_index_in_bounds by simp
qed

text \<open>
  The palette membership at a role without a keyword, whose hash wraps around in the
  shift.
\<close>

theorem getColorForRole_in_palette_witness:
  "getColorForRole asciiRuntime (ascii ''Sponsor'') = ascii ''bg-cyan-500'' \<and>
   getColorForRole asciiRuntime (ascii ''Sponsor'') \<in> set TAILWIND_COLORS"
proof -
  have "getColorForRole asciiRuntime (ascii ''Sponsor'') = ascii ''bg-cyan-500''"
    by code_simp
  with getColorForRole_in_palette [of asciiRuntime "ascii ''Sponsor''"] show ?thesis by simp
qed

section \<open>Properties of the bar sessions\<close>

text \<open>The rounding of the pointer offset, in integer arithmetic.\<close>

lemma deltaDays_div:
  "round (rat_of_int dx / rat_of_int DAY_WIDTH) = (dx + 25) div 50"
proof -
  have "rat_of_int dx / 50 + 1 / 2 = rat_of_int (dx + 25) / rat_of_int 50"
    by (simp add: field_simps)
  then have "\<lfloor>rat_of_int dx / 50 + 1 / 2\<rfloor> = (dx + 25) div 50"
    by (simp only: floor_divide_of_int_eq)
  then show ?thesis by (simp add: round_def DAY_WIDTH_def)
qed


lemma handleMouseMove_zero:
  assumes "draggedBar st = Some bar"
    and "round (rat_of_int (x - startX bar) / rat_of_int DAY_WIDTH) = 0"
  shows "handleMouseMove props x st = (st, [])"
  using assms by (simp add: handleMouseMove_def Let_def)

lemma handleMouseMove_readOnly:
  "readOnly props \<Longrightarrow> handleMouseMove props x st = (st, [])"
  by (simp add: handleMouseMove_def split: option.splits)

lemma run_append:
  "run props (es @ es') st =
     (case run props es st of
        (st', out) \<Rightarrow> (case run props es' st' of (st'', out') \<Rightarrow> (st'', out @ out')))"
  by (induction es arbitrary: st) (auto split: prod.splits)

lemma run_zero_moves:
  assumes "draggedBar st = Some bar"
    and "\<forall>x\<in>set xs. round (rat_of_int (x - startX bar) / rat_of_int DAY_WIDTH) = 0"
  shows "run props (map MouseMove xs) st = (st, [])"
  using assms
  by (induction xs) (simp_all add: handleMouseMove_zero)

lemma handleBarMouseDown_opens:
  assumes "originalAssignment row = Some a" "row_startDate row = Some s"
    "row_endDate row = Some e"
  shows "\<exists>bar. handleBarMouseDown props x0 row st = (st\<lparr>draggedBar := Some bar\<rparr>, []) \<and>
     session_of row x0 bar \<and> \<not> hasMoved bar \<and> currentStart bar = s \<and> currentEnd bar = e"
proof -
  let ?bar = "\<lparr>assignmentId = assign_id a, bar_parentId = task_id (originalTask row),
               startX = x0, originalStart = s, originalEnd = e,
               originalWorkingDays = calculateWorkingDays s e,
               currentStart = s, currentEnd = e, hasMoved = False,
               taskReference = originalTask row\<rparr>"
  have "handleBarMouseDown props x0 row st = (st\<lparr>draggedBar := Some ?bar\<rparr>, [])"
    using assms by (simp add: handleBarMouseDown_def Let_def)
  moreover have "session_of row x0 ?bar"
    using assms by (simp add: session_of_def)
  ultimately show ?thesis by (intro exI [of _ ?bar]) simp
qed




text \<open>
  Claim C3.  A pointer-down on a bar (a leaf row that has its dates), any number of
  pointer-moves whose offset from the origin rounds to zero days, and a pointer-up:
  the run calls the click callback once, with the row's feature, publishes no
  collection, closes the session and changes nothing else of the state.  This holds
  in read-only mode as well.
\<close>

theorem click_without_movement:
  assumes "originalAssignment row = Some a"
    and "row_startDate row = Some s" and "row_endDate row = Some e"
    and "\<forall>x\<in>set xs. round (rat_of_int (x - x0) / rat_of_int DAY_WIDTH) = 0"
  shows "run props (BarMouseDown x0 row # map MouseMove xs @ [MouseUp]) st =
           (st\<lparr>draggedBar := None\<rparr>, [TaskClick (originalTask row)])"
proof -
  from handleBarMouseDown_opens [OF assms(1,2,3), of props x0 st]
  obtain bar where bar: "handleBarMouseDown props x0 row st = (st\<lparr>draggedBar := Some bar\<rparr>, [])"
    "session_of row x0 bar" "\<not> hasMoved bar"
    by blast
  let ?st1 = "st\<lparr>draggedBar := Some bar\<rparr>"
  have x0: "startX bar = x0" using bar(2) by (simp add: session_of_def)
  have moves: "run props (map MouseMove xs) ?st1 = (?st1, [])"
    using assms(4) by (intro run_zero_moves [where bar = bar]) (simp_all add: x0)
  have up: "handleMouseUp props ?st1 = (st\<lparr>draggedBar := None\<rparr>, [TaskClick (originalTask row)])"
    using bar(2,3) by (simp add: handleMouseUp_def session_of_def)
  show ?thesis
    by (simp add: bar(1) run_append moves up)
qed


text \<open>
  A click on the sample board: a press on the front-end bar, two moves of ten pixels,
  a release.
\<close>

theorem click_without_movement_witness:
  "run board [BarMouseDown 100 rowFE, MouseMove 110, MouseMove 90, MouseUp] idle =
     (idle, [TaskClick taskLogin])"
proof -
  have row: "originalAssignment rowFE = Some assignFE"
    "row_startDate rowFE = Some (isoDate 2025 1 2)"
    "row_endDate rowFE = Some (isoDate 2025 1 3)"
    "originalTask rowFE = taskLogin"
    by (simp_all add: rowFE_def featureLeaf_def leafDates_def idle_def assignFE_def)
  have zero: "\<forall>x\<in>set [110, 90]. round (rat_of_int (x - 100) / rat_of_int DAY_WIDTH) = 0"
    by code_simp
  from click_without_movement [OF row(1,2,3) zero, of board idle]
  show ?thesis by (simp add: row(4) idle_def)
qed



text \<open>
  A drag of a row does not start while a bar session is open.
\<close>

lemma handleDragStart_guard:
  "isSome (draggedBar st) \<Longrightarrow> handleDragStart props row st = (st, [PreventDefault])"
  by (simp add: handleDragStart_def)

text \<open>
  Claim C4 at its failing input.  A header is dragged and dropped onto itself; the
  drop returns before it clears the reorder session.  The pointer-down on a bar that
  follows opens a bar session all the same: both sessions are held at once.
\<close>

theorem both_sessions_open:
  "fst (run board [DragStart rowLoginHeader, Drop rowLoginHeader] idle) =
     idle\<lparr>draggedItem := Some \<lparr>drag_type = TASK, drag_id = ascii ''t1'', parentId = None\<rparr>\<rparr> \<and>
   isSome (draggedItem
     (fst (run board [DragStart rowLoginHeader, Drop rowLoginHeader, BarMouseDown 100 rowFE]
        idle))) \<and>
   isSome (draggedBar
     (fst (run board [DragStart rowLoginHeader, Drop rowLoginHeader, BarMouseDown 100 rowFE]
        idle)))"
  by (simp add: handleDragStart_def handleDrop_def handleBarMouseDown_def board_def idle_def
        isDraggable_def
        rowLoginHeader_def rowFE_def featureRows_def featureLeaf_def leafDates_def
        taskLogin_def Let_def)

section \<open>Properties of the reorder drop\<close>

lemma findIndex_Some:
  "findIndex P xs = Some i \<Longrightarrow> i < length xs \<and> P (xs ! i)"
proof (induction xs arbitrary: i)
  case Nil
  then show ?case by simp
next
  case (Cons x xs)
  show ?case
  proof (cases "P x")
    case True
    with Cons.prems show ?thesis by simp
  next
    case False
    with Cons.prems obtain j where j: "findIndex P xs = Some j" "i = Suc j"
      by auto
    from Cons.IH [OF j(1)] j(2) show ?thesis by simp
  qed
qed

lemma mset_splice_insert: "mset (splice_insert j x ys) = add_mset x (mset ys)"
proof -
  have "mset (take j ys) + mset (drop j ys) = mset ys"
    by (metis append_take_drop_id mset_append)
  then show ?thesis by (simp add: splice_insert_def)
qed

lemma mset_splice_remove:
  "i < length xs \<Longrightarrow> add_mset (xs ! i) (mset (splice_remove i xs)) = mset xs"
proof -
  assume "i < length xs"
  then have "xs = take i xs @ xs ! i # drop (Suc i) xs"
    by (rule id_take_nth_drop)
  then have "mset xs = mset (take i xs @ xs ! i # drop (Suc i) xs)"
    by simp
  then show ?thesis by (simp add: splice_remove_def)
qed

lemma mset_move:
  "i < length xs \<Longrightarrow> mset (splice_insert j (xs ! i) (splice_remove i xs)) = mset xs"
  by (simp add: mset_splice_insert mset_splice_remove)

text \<open>The two ways in which a drop publishes a collection.\<close>

lemma handleDrop_commit:
  assumes "handleDrop props targetRow st = (st', out)"
    and "TaskReorder newTasks \<in> set out"
    and "draggedItem st = Some item"
  shows "(drag_type item = TASK \<and> isHeader targetRow \<and>
          (\<exists>fromIndex toIndex. fromIndex < length (tasks props) \<and>
             newTasks = splice_insert toIndex (tasks props ! fromIndex)
                          (splice_remove fromIndex (tasks props)))) \<or>
         (drag_type item = ASSIGNMENT \<and> \<not> isHeader targetRow \<and>
          parentId item = Some (task_id (originalTask targetRow)) \<and>
          (\<exists>taskIndex fromIndex toIndex.
             taskIndex < length (tasks props) \<and>
             Some (task_id (tasks props ! taskIndex)) = parentId item \<and>
             fromIndex < length (assignments (tasks props ! taskIndex)) \<and>
             newTasks = (tasks props)
               [taskIndex := (tasks props ! taskIndex)
                  \<lparr>assignments :=
                     splice_insert toIndex (assignments (tasks props ! taskIndex) ! fromIndex)
                       (splice_remove fromIndex (assignments (tasks props ! taskIndex)))\<rparr>]))"
proof -
  have out: "TaskReorder newTasks \<in> set (snd (handleDrop props targetRow st))"
    using assms(1,2) by simp
  have ro: "\<not> readOnly props"
  proof
    assume "readOnly props"
    with out assms(3) show False by (simp add: handleDrop_def)
  qed
  have re: "onTaskReorder props"
  proof (rule ccontr)
    assume "\<not> onTaskReorder props"
    with out ro assms(3) show False by (simp add: handleDrop_def)
  qed
  note enabled = ro re assms(3)
  show ?thesis
  proof (cases "drag_type item = TASK \<and> isHeader targetRow")
    case True
    show ?thesis
    proof (cases "findIndex (\<lambda>t. task_id t = drag_id item) (tasks props)")
      case None
      with out enabled True show ?thesis
        by (simp add: handleDrop_def split: if_splits)
    next
      case src: (Some fromIndex)
      show ?thesis
      proof (cases "findIndex (\<lambda>t. task_id t = task_id (originalTask targetRow)) (tasks props)")
        case None
        with out enabled True src show ?thesis
          by (simp add: handleDrop_def split: if_splits)
      next
        case (Some toIndex)
        from findIndex_Some [OF src] have "fromIndex < length (tasks props)" by simp
        moreover have "newTasks = splice_insert toIndex (tasks props ! fromIndex)
                          (splice_remove fromIndex (tasks props))"
          using out enabled True src Some
          by (simp add: handleDrop_def Let_def split: if_splits)
        ultimately show ?thesis using True by blast
      qed
    qed
  next
    case notHeader: False
    show ?thesis
    proof (cases "drag_type item = ASSIGNMENT \<and> \<not> isHeader targetRow \<and>
                  isSome (originalAssignment targetRow)")
      case False
      with out enabled notHeader show ?thesis
        by (simp add: handleDrop_def)
    next
      case leaf: True
      show ?thesis
      proof (cases "parentId item = Some (task_id (originalTask targetRow))")
        case False
        with out enabled notHeader leaf show ?thesis
          by (simp add: handleDrop_def)
      next
        case parent: True
        have other: "Some (drag_id item) \<noteq> map_option assign_id (originalAssignment targetRow)"
        proof
          assume "Some (drag_id item) = map_option assign_id (originalAssignment targetRow)"
          with out enabled notHeader leaf parent show False
            by (simp add: handleDrop_def)
        qed
        note same = parent other
        show ?thesis
        proof (cases "findIndex (\<lambda>t. Some (task_id t) = parentId item) (tasks props)")
          case None
          with out enabled notHeader leaf same show ?thesis
            by (simp add: handleDrop_def)
        next
          case task: (Some taskIndex)
          let ?as = "assignments (tasks props ! taskIndex)"
          show ?thesis
          proof (cases "findIndex (\<lambda>a. assign_id a = drag_id item) ?as")
            case None
            with out enabled notHeader leaf same task show ?thesis
              by (simp add: handleDrop_def Let_def)
          next
            case src: (Some fromIndex)
            show ?thesis
            proof (cases "findIndex (\<lambda>a. Some (assign_id a) =
                      map_option assign_id (originalAssignment targetRow)) ?as")
              case None
              with out enabled notHeader leaf same task src show ?thesis
                by (simp add: handleDrop_def Let_def)
            next
              case (Some toIndex)
              from findIndex_Some [OF task]
              have t: "taskIndex < length (tasks props)"
                "Some (task_id (tasks props ! taskIndex)) = parentId item"
                by simp_all
              from findIndex_Some [OF src] have f: "fromIndex < length ?as" by simp
              have "newTasks = (tasks props)
                 [taskIndex := (tasks props ! taskIndex)
                    \<lparr>assignments := splice_insert toIndex (?as ! fromIndex)
                         (splice_remove fromIndex ?as)\<rparr>]"
                using out enabled notHeader leaf same task src Some
                by (simp add: handleDrop_def Let_def)
              with t f leaf same show ?thesis by blast
            qed
          qed
        qed
      qed
    qed
  qed
qed

text \<open>
  Claim C8.  Whenever a drop publishes a collection, each feature of the new
  collection keeps its identifier and the multiset of the identifiers of its
  assignments.  A header drop publishes a permutation of the feature list, the
  features themselves unchanged.  A leaf drop publishes only when the target belongs
  to the feature of the dragged leaf; the list keeps its length, every feature keeps
  its identifier, its name and the multiset of its assignments, and a feature with
  another identifier than the owner is unchanged.
\<close>

theorem reorder_is_permutation:
  assumes "handleDrop props targetRow st = (st', out)"
    and "TaskReorder newTasks \<in> set out"
    and "draggedItem st = Some item"
  shows "mset (map (\<lambda>t. (task_id t, mset (map assign_id (assignments t)))) newTasks) =
         mset (map (\<lambda>t. (task_id t, mset (map assign_id (assignments t)))) (tasks props)) \<and>
    (drag_type item = TASK \<longrightarrow> mset newTasks = mset (tasks props)) \<and>
    (drag_type item = ASSIGNMENT \<longrightarrow>
           parentId item = Some (task_id (originalTask targetRow)) \<and>
           length newTasks = length (tasks props) \<and>
           (\<forall>i < length newTasks.
              task_id (newTasks ! i) = task_id (tasks props ! i) \<and>
              name (newTasks ! i) = name (tasks props ! i) \<and>
              mset (assignments (newTasks ! i)) = mset (assignments (tasks props ! i)) \<and>
              (Some (task_id (tasks props ! i)) \<noteq> parentId item
                 \<longrightarrow> newTasks ! i = tasks props ! i)))"
proof -
  let ?ids = "\<lambda>t. (task_id t, mset (map assign_id (assignments t)))"
  from handleDrop_commit [OF assms]
  consider (header) fromIndex toIndex where "drag_type item = TASK"
      "fromIndex < length (tasks props)"
      "newTasks = splice_insert toIndex (tasks props ! fromIndex)
                    (splice_remove fromIndex (tasks props))"
    | (leaf) taskIndex fromIndex toIndex where "drag_type item = ASSIGNMENT"
      "parentId item = Some (task_id (originalTask targetRow))"
      "taskIndex < length (tasks props)"
      "Some (task_id (tasks props ! taskIndex)) = parentId item"
      "fromIndex < length (assignments (tasks props ! taskIndex))"
      "newTasks = (tasks props)
         [taskIndex := (tasks props ! taskIndex)
            \<lparr>assignments :=
               splice_insert toIndex (assignments (tasks props ! taskIndex) ! fromIndex)
                 (splice_remove fromIndex (assignments (tasks props ! taskIndex)))\<rparr>]"
    by blast
  then show ?thesis
  proof cases
    case header
    have perm: "mset newTasks = mset (tasks props)"
      unfolding header(3) using header(2) by (rule mset_move)
    then have "mset (map ?ids newTasks) = mset (map ?ids (tasks props))"
      by (metis mset_map)
    with perm header(1) show ?thesis by simp
  next
    case leaf
    let ?t = "tasks props ! taskIndex"
    let ?as' = "splice_insert toIndex (assignments ?t ! fromIndex)
                  (splice_remove fromIndex (assignments ?t))"
    have as: "mset ?as' = mset (assignments ?t)"
      using leaf(5) by (rule mset_move)
    have nth: "newTasks ! i = (if i = taskIndex then ?t\<lparr>assignments := ?as'\<rparr> else tasks props ! i)"
      if "i < length (tasks props)" for i
      using that by (simp add: leaf(6) nth_list_update)
    have len: "length newTasks = length (tasks props)"
      by (simp add: leaf(6))
    have pointwise: "\<forall>i < length newTasks.
              task_id (newTasks ! i) = task_id (tasks props ! i) \<and>
              name (newTasks ! i) = name (tasks props ! i) \<and>
              mset (assignments (newTasks ! i)) = mset (assignments (tasks props ! i)) \<and>
              (Some (task_id (tasks props ! i)) \<noteq> parentId item
                 \<longrightarrow> newTasks ! i = tasks props ! i)"
      using nth as leaf(4) by (auto simp: len)
    have "map ?ids newTasks = map ?ids (tasks props)"
    proof (rule nth_equalityI)
      show "length (map ?ids newTasks) = length (map ?ids (tasks props))"
        by (simp add: len)
    next
      fix i assume "i < length (map ?ids newTasks)"
      then have i: "i < length newTasks" by simp
      with pointwise have "task_id (newTasks ! i) = task_id (tasks props ! i)"
        "mset (assignments (newTasks ! i)) = mset (assignments (tasks props ! i))"
        by simp_all
      then have "?ids (newTasks ! i) = ?ids (tasks props ! i)"
        by (metis mset_map)
      then show "map ?ids newTasks ! i = map ?ids (tasks props) ! i"
        using i len by simp
    qed
    with pointwise len leaf(1,2) show ?thesis by simp
  qed
qed

text \<open>
  Two drops on the sample board: the header of the first feature dropped on the
  second, and the first leaf of a feature dropped on its second leaf.
\<close>

theorem reorder_is_permutation_witness:
  "handleDrop board rowProgrammeHeader
     (idle\<lparr>draggedItem := Some \<lparr>drag_type = TASK, drag_id = ascii ''t1'', parentId = None\<rparr>\<rparr>)
     = (idle, [PreventDefault, TaskReorder [taskProgramme, taskLogin]]) \<and>
   mset [taskProgramme, taskLogin] = mset (tasks board) \<and>
   handleDrop board rowBE
     (idle\<lparr>draggedItem := Some \<lparr>drag_type = ASSIGNMENT, drag_id = ascii ''a1'',
                                  parentId = Some (ascii ''t1'')\<rparr>\<rparr>)
     = (idle, [PreventDefault,
               TaskReorder [taskLogin\<lparr>assignments := [assignBE, assignFE]\<rparr>, taskProgramme]]) \<and>
   mset (assignments (taskLogin\<lparr>assignments := [assignBE, assignFE]\<rparr>))
     = mset (assignments taskLogin)"
proof -
  let ?dragTask = "\<lparr>drag_type = TASK, drag_id = ascii ''t1'', parentId = None\<rparr>"
  let ?dragLeaf = "\<lparr>drag_type = ASSIGNMENT, drag_id = ascii ''a1'',
                    parentId = Some (ascii ''t1'')\<rparr>"
  have header: "handleDrop board rowProgrammeHeader (idle\<lparr>draggedItem := Some ?dragTask\<rparr>)
     = (idle, [PreventDefault, TaskReorder [taskProgramme, taskLogin]])"
    by (simp add: handleDrop_def board_def idle_def rowProgrammeHeader_def featureRows_def
          taskProgramme_def taskLogin_def splice_insert_def splice_remove_def ascii_def
          Let_def)
  have leaf: "handleDrop board rowBE (idle\<lparr>draggedItem := Some ?dragLeaf\<rparr>)
     = (idle, [PreventDefault,
               TaskReorder [taskLogin\<lparr>assignments := [assignBE, assignFE]\<rparr>, taskProgramme]])"
    by (simp add: handleDrop_def board_def idle_def rowBE_def featureLeaf_def
          taskProgramme_def taskLogin_def assignFE_def assignBE_def
          splice_insert_def splice_remove_def ascii_def Let_def)
  have a: "mset [taskProgramme, taskLogin] = mset (tasks board)"
    using reorder_is_permutation [OF header, of "[taskProgramme, taskLogin]" ?dragTask]
    by (simp add: idle_def)
  let ?new = "[taskLogin\<lparr>assignments := [assignBE, assignFE]\<rparr>, taskProgramme]"
  from reorder_is_permutation [OF leaf, of ?new ?dragLeaf]
  have "\<forall>i < length ?new.
          mset (assignments (?new ! i)) = mset (assignments (tasks board ! i))"
    by (simp add: idle_def)
  then have "0 < length ?new \<longrightarrow>
      mset (assignments (?new ! 0)) = mset (assignments (tasks board ! 0))"
    by (rule spec)
  then have "mset (assignments (?new ! 0)) = mset (assignments (tasks board ! 0))"
    by simp
  then have b: "mset (assignments (taskLogin\<lparr>assignments := [assignBE, assignFE]\<rparr>))
             = mset (assignments taskLogin)"
    by (simp add: board_def)
  from header leaf a b show ?thesis by simp
qed



section \<open>Properties of the snapshot decoder\<close>

lemma bindE_simps [simp]:
  "bindE (Inl e) f = Inl e"
  "bindE (Inr x) f = f x"
  by (simp_all add: bindE_def)

lemma hasProp_isObject: "isObject v \<Longrightarrow> \<exists>b. hasProp k v = Inr b"
  by (cases v) auto





lemma ascii_eq_iff [simp]: "ascii s = ascii t \<longleftrightarrow> s = t"
proof -
  have "inj (\<lambda>c. word_of_nat (of_char c) :: 16 word)"
  proof (rule injI)
    fix a b :: char
    assume "(word_of_nat (of_char a) :: 16 word) = word_of_nat (of_char b)"
    then have "take_bit 16 (of_char a :: nat) = take_bit 16 (of_char b :: nat)"
      by (simp add: word_of_nat_eq_iff)
    moreover have "(of_char c :: nat) < 2 ^ 16" for c :: char
    proof -
      have "(of_char c :: nat) mod 256 < 256" by (rule mod_less_divisor) simp
      then have "(of_char c :: nat) < 256" by simp
      then show ?thesis by (rule less_trans) simp
    qed
    ultimately have "(of_char a :: nat) = of_char b"
      by (simp add: take_bit_nat_eq_self)
    then show "a = b" by simp
  qed
  then show ?thesis
    unfolding ascii_def by (rule inj_map_eq_map)
qed




lemma isTaskJson_not_minified:
  "list_all isTaskJson ts \<Longrightarrow> ts \<noteq> [] \<Longrightarrow> isObject (hd ts)"
  by (cases ts; cases "hd ts") auto










section \<open>Properties of the row projection\<close>


text \<open>The number of items held in all buckets.\<close>

lemma total_update:
  "map_of gs k = Some items \<Longrightarrow> distinct (map fst gs) \<Longrightarrow>
   sum_list (map (\<lambda>g. length (snd g)) (AList.update k (items @ [x]) gs)) =
   Suc (sum_list (map (\<lambda>g. length (snd g)) gs))"
proof (induction gs)
  case Nil
  then show ?case by simp
next
  case (Cons g gs)
  obtain k' v' where g: "g = (k', v')" by (cases g)
  show ?case
  proof (cases "k' = k")
    case True
    with Cons.prems g show ?thesis by simp
  next
    case False
    with Cons g show ?thesis by simp
  qed
qed

lemma addToGroup_Inr:
  assumes "addToGroup k x gs = Inr gs'" "distinct (map fst gs)"
  shows "distinct (map fst gs') \<and>
         sum_list (map (\<lambda>g. length (snd g)) gs') =
           sum_list (map (\<lambda>g. length (snd g)) gs) + 1"
proof (cases "map_of gs k")
  case None
  then have "k \<notin> fst ` set gs" by (simp add: map_of_eq_None_iff)
  with assms None show ?thesis
    by (auto simp: addToGroup_def split: if_splits)
next
  case (Some items)
  with assms have gs': "gs' = AList.update k (items @ [x]) gs"
    by (simp add: addToGroup_def)
  show ?thesis
    unfolding gs' using total_update [OF Some assms(2)] assms(2)
    by (simp add: distinct_update)
qed

lemma addToGroup_succeeds:
  "k \<notin> set Object_prototype_keys \<Longrightarrow> \<exists>gs'. addToGroup k x gs = Inr gs'"
  by (simp add: addToGroup_def split: option.splits)

text \<open>A loop whose body keeps an invariant and adds a weight to a measure.\<close>

lemma forEach_measure:
  fixes m :: "'s \<Rightarrow> nat"
  assumes step: "\<And>x s s'. x \<in> set xs \<Longrightarrow> f x s = Inr s' \<Longrightarrow> I s \<Longrightarrow>
                   I s' \<and> m s' = m s + w x"
    and "forEach f xs s = Inr s'" and "I s"
  shows "I s' \<and> m s' = m s + sum_list (map w xs)"
  using assms
proof (induction xs arbitrary: s)
  case Nil
  then show ?case by simp
next
  case (Cons x xs)
  from Cons.prems(2) obtain s1 where s1: "f x s = Inr s1" "forEach f xs s1 = Inr s'"
    by (auto split: sum.splits)
  from Cons.prems(1) [of x s s1] s1(1) Cons.prems(3)
  have a: "I s1" "m s1 = m s + w x" by simp_all
  have "I s' \<and> m s' = m s1 + sum_list (map w xs)"
  proof (rule Cons.IH [OF _ s1(2) a(1)])
    fix y t t' assume "y \<in> set xs" "f y t = Inr t'" "I t"
    then show "I t' \<and> m t' = m t + w y"
      using Cons.prems(1) [of y t t'] by simp
  qed
  with a(2) show ?case by simp
qed

lemma forEach_succeeds:
  assumes "\<And>x s. x \<in> set xs \<Longrightarrow> \<exists>s'. f x s = Inr s'"
  shows "\<exists>s'. forEach f xs s = Inr s'"
  using assms
proof (induction xs arbitrary: s)
  case Nil
  then show ?case by simp
next
  case (Cons x xs)
  from Cons.prems [of x s] obtain s1 where "f x s = Inr s1" by auto
  moreover from Cons.IH [of s1] Cons.prems obtain s' where "forEach f xs s1 = Inr s'"
    by auto
  ultimately show ?case by simp
qed

text \<open>
  The fan-out of the source adds the assignment to the buckets that the specification
  names.
\<close>

lemma groupAssignment_forEach:
  "groupAssignment rt task assign gs =
     forEach (\<lambda>groupName. addToGroup groupName (task, assign)) (bucketNames rt assign) gs"
  by (simp add: groupAssignment_def bucketNames_def Let_def split: sum.splits)

lemma groupAssignment_Inr:
  assumes "groupAssignment rt task assign gs = Inr gs'" "distinct (map fst gs)"
  shows "distinct (map fst gs') \<and>
         sum_list (map (\<lambda>g. length (snd g)) gs') =
           sum_list (map (\<lambda>g. length (snd g)) gs) + length (bucketNames rt assign)"
proof -
  have "distinct (map fst gs') \<and>
         sum_list (map (\<lambda>g. length (snd g)) gs') =
           sum_list (map (\<lambda>g. length (snd g)) gs)
           + sum_list (map (\<lambda>n. 1) (bucketNames rt assign))"
  proof (rule forEach_measure [where f = "\<lambda>groupName. addToGroup groupName (task, assign)"
        and I = "\<lambda>gs. distinct (map fst gs)"])
    show "forEach (\<lambda>groupName. addToGroup groupName (task, assign)) (bucketNames rt assign) gs
            = Inr gs'"
      using assms(1) by (simp add: groupAssignment_forEach)
  qed (use assms(2) addToGroup_Inr in auto)
  then show ?thesis by (simp add: sum_list_triv)
qed

lemma buildGroups_Inr:
  assumes "buildGroups rt ts = Inr gs"
  shows "distinct (map fst gs) \<and>
         sum_list (map (\<lambda>g. length (snd g)) gs) =
           sum_list (map (\<lambda>a. length (bucketNames rt a)) (allAssignments ts))"
proof -
  have inner: "distinct (map fst s') \<and>
      sum_list (map (\<lambda>g. length (snd g)) s') =
        sum_list (map (\<lambda>g. length (snd g)) s)
        + sum_list (map (\<lambda>a. length (bucketNames rt a)) (assignments task))"
    if "forEach (groupAssignment rt task) (assignments task) s = Inr s'"
      "distinct (map fst s)" for task s s'
  proof (rule forEach_measure [where f = "groupAssignment rt task"
        and I = "\<lambda>gs. distinct (map fst gs)"])
    show "forEach (groupAssignment rt task) (assignments task) s = Inr s'"
      by (rule that(1))
    show "distinct (map fst s)" by (rule that(2))
  next
    fix x t t' assume "groupAssignment rt task x t = Inr t'" "distinct (map fst t)"
    then show "distinct (map fst t') \<and>
      sum_list (map (\<lambda>g. length (snd g)) t') =
        sum_list (map (\<lambda>g. length (snd g)) t) + length (bucketNames rt x)"
      by (rule groupAssignment_Inr)
  qed
  have "distinct (map fst gs) \<and>
      sum_list (map (\<lambda>g. length (snd g)) gs) =
        sum_list (map (\<lambda>g. length (snd g)) ([] :: groups))
        + sum_list (map (\<lambda>task. sum_list (map (\<lambda>a. length (bucketNames rt a))
                                   (assignments task))) ts)"
  proof (rule forEach_measure [where
        f = "\<lambda>task. forEach (groupAssignment rt task) (assignments task)"
        and I = "\<lambda>gs. distinct (map fst gs)"])
    show "forEach (\<lambda>task. forEach (groupAssignment rt task) (assignments task)) ts [] = Inr gs"
      using assms by (simp add: buildGroups_def)
  qed (use inner in auto)
  moreover have "sum_list (map (\<lambda>task. sum_list (map (\<lambda>a. length (bucketNames rt a))
                                   (assignments task))) ts)
      = sum_list (map (\<lambda>a. length (bucketNames rt a)) (allAssignments ts))"
    by (induction ts) (simp_all add: allAssignments_def)
  ultimately show ?thesis by simp
qed

text \<open>
  The grouping does not throw when no bucket name is the name of a property of
  \<^verbatim>\<open>Object.prototype\<close>.
\<close>

lemma buildGroups_succeeds:
  assumes "\<forall>a\<in>set (allAssignments ts). \<forall>k\<in>set (bucketNames rt a).
             k \<notin> set Object_prototype_keys"
  shows "\<exists>gs. buildGroups rt ts = Inr gs"
  unfolding buildGroups_def
proof (rule forEach_succeeds)
  fix task s assume task: "task \<in> set ts"
  show "\<exists>s'. forEach (groupAssignment rt task) (assignments task) s = Inr s'"
  proof (rule forEach_succeeds)
    fix a s1 assume a: "a \<in> set (assignments task)"
    with task have "a \<in> set (allAssignments ts)"
      by (auto simp: allAssignments_def)
    with assms have "\<forall>k\<in>set (bucketNames rt a). k \<notin> set Object_prototype_keys"
      by blast
    then show "\<exists>s'. groupAssignment rt task a s1 = Inr s'"
      unfolding groupAssignment_forEach
      by (intro forEach_succeeds addToGroup_succeeds) blast
  qed
qed

text \<open>The sorted keys are the keys.\<close>

lemma mset_insert_by: "mset (insert_by cmp x ys) = add_mset x (mset ys)"
  by (induction ys) simp_all

lemma mset_sort_by: "mset (sort_by cmp xs) = mset xs"
  by (induction xs) (simp_all add: sort_by_def mset_insert_by)

lemma mset_objectKeys: "mset (objectKeys gs) = mset (map fst gs)"
proof -
  let ?ks = "map fst gs"
  have "mset (objectKeys gs) =
          filter_mset isArrayIndex (mset ?ks) + filter_mset (\<lambda>k. \<not> isArrayIndex k) (mset ?ks)"
    by (simp add: objectKeys_def Let_def del: mset_map)
  also have "\<dots> = mset ?ks"
    by (rule multiset_partition [symmetric])
  finally show ?thesis .
qed

lemma sum_list_mset_cong:
  fixes f :: "'a \<Rightarrow> nat"
  assumes "mset xs = mset ys"
  shows "sum_list (map f xs) = sum_list (map f ys)"
proof -
  have "sum_list (map f zs) = sum_mset (image_mset f (mset zs))" for zs
    by (induction zs) simp_all
  with assms show ?thesis by simp
qed

lemma leafCount_append: "leafCount (xs @ ys) = leafCount xs + leafCount ys"
  by (simp add: leafCount_def)

lemma leafCount_concat: "leafCount (concat xss) = sum_list (map leafCount xss)"
proof (induction xss)
  case Nil
  show ?case by (simp add: leafCount_def)
next
  case (Cons xs xss)
  then show ?case by (simp add: leafCount_append)
qed

lemma roleLeaf_not_header: "isHeader (roleLeaf rt st x) = False"
  by (cases x) (simp add: roleLeaf_def Let_def)

lemma leafCount_leaves: "leafCount (map (roleLeaf rt st) items) = length items"
  by (induction items) (simp_all add: leafCount_def roleLeaf_not_header)

lemma leafCount_roleRows:
  "leafCount (roleRows rt st gs k) =
     (case map_of gs k of None \<Rightarrow> 0 | Some items \<Rightarrow> length items)"
proof (cases "map_of gs k")
  case None
  then show ?thesis by (simp add: roleRows_def leafCount_def)
next
  case (Some items)
  show ?thesis
  proof (cases "items = []")
    case True
    with Some show ?thesis by (simp add: roleRows_def leafCount_def)
  next
    case False
    have "roleRows rt st gs k =
            \<lparr>label = k,
             row_subLabel = Some (decimal (length items) @ str_tasks_suffix),
             isHeader = True,
             row_startDate = None, row_endDate = None, row_progress = None,
             row_color = None,
             originalTask = fst (hd items), originalAssignment = None\<rparr>
            # map (roleLeaf rt st) items"
      using Some False by (simp add: roleRows_def)
    then have "leafCount (roleRows rt st gs k) = leafCount (map (roleLeaf rt st) items)"
      by (simp add: leafCount_def)
    with Some show ?thesis by (simp add: leafCount_leaves)
  qed
qed

lemma sum_list_cong_set:
  "(\<And>x. x \<in> set xs \<Longrightarrow> f x = (g x :: nat)) \<Longrightarrow>
   sum_list (map f xs) = sum_list (map g xs)"
  by (induction xs) simp_all

lemma sizes_of_keys:
  assumes "distinct (map fst gs)"
  shows "sum_list (map (\<lambda>k. case map_of gs k of None \<Rightarrow> 0 | Some items \<Rightarrow> length items)
           (map fst gs)) = sum_list (map (\<lambda>g. length (snd g)) gs)"
proof -
  have "(case map_of gs (fst g) of None \<Rightarrow> 0 | Some items \<Rightarrow> length items) = length (snd g)"
    if "g \<in> set gs" for g
  proof -
    from that have "(fst g, snd g) \<in> set gs" by simp
    with assms have "map_of gs (fst g) = Some (snd g)" by (rule map_of_is_SomeI)
    then show ?thesis by simp
  qed
  then have "sum_list (map (\<lambda>g. case map_of gs (fst g) of None \<Rightarrow> 0
                                  | Some items \<Rightarrow> length items) gs)
             = sum_list (map (\<lambda>g. length (snd g)) gs)"
    by (rule sum_list_cong_set)
  then show ?thesis
    by (simp add: comp_def)
qed

text \<open>
  When the projection in role mode returns, it has one leaf row for each bucket of
  each assignment.
\<close>

lemma role_rows_count:
  assumes "groupBy props = Assignee" and "rows rt props st = Inr rs"
  shows "leafCount rs =
           sum_list (map (\<lambda>a. length (bucketNames rt a)) (allAssignments (tasks props)))"
proof -
  from assms obtain gs where gs: "buildGroups rt (tasks props) = Inr gs"
    and rs: "rs = concat (map (roleRows rt st gs) (sort_by (compareKeys rt) (objectKeys gs)))"
    by (auto simp: rows_def Let_def split: sum.splits)
  let ?sz = "\<lambda>k. case map_of gs k of None \<Rightarrow> 0 | Some items \<Rightarrow> length items"
  from buildGroups_Inr [OF gs]
  have d: "distinct (map fst gs)"
    and total: "sum_list (map (\<lambda>g. length (snd g)) gs) =
      sum_list (map (\<lambda>a. length (bucketNames rt a)) (allAssignments (tasks props)))"
    by simp_all
  have "leafCount rs = sum_list (map ?sz (sort_by (compareKeys rt) (objectKeys gs)))"
    by (simp add: rs leafCount_concat comp_def leafCount_roleRows)
  also have "\<dots> = sum_list (map ?sz (map fst gs))"
    by (rule sum_list_mset_cong) (simp add: mset_sort_by mset_objectKeys)
  also have "\<dots> = sum_list (map (\<lambda>g. length (snd g)) gs)"
    using d by (rule sizes_of_keys)
  finally show ?thesis using total by simp
qed

lemma bucketNames_length:
  "length (bucketNames rt a) = 1 \<or> length (bucketNames rt a) = 2 \<or>
   length (bucketNames rt a) = 5"
  by (simp add: bucketNames_def Let_def)

text \<open>
  So it has at least as many leaf rows as there are assignments, and exactly as many
  when no assignment fans out.
\<close>

lemma role_rows_at_least:
  assumes "groupBy props = Assignee" and "rows rt props st = Inr rs"
  shows "length (allAssignments (tasks props)) \<le> leafCount rs"
    and "leafCount rs = length (allAssignments (tasks props)) \<longleftrightarrow>
           (\<forall>a\<in>set (allAssignments (tasks props)). length (bucketNames rt a) = 1)"
proof -
  have ge: "length xs \<le> sum_list (map (\<lambda>a. length (bucketNames rt a)) xs)" for xs
  proof (induction xs)
    case (Cons a xs)
    from bucketNames_length [of rt a] have "1 \<le> length (bucketNames rt a)" by auto
    with Cons show ?case by simp
  qed simp
  have eq: "sum_list (map (\<lambda>a. length (bucketNames rt a)) xs) = length xs \<longleftrightarrow>
            (\<forall>a\<in>set xs. length (bucketNames rt a) = 1)" for xs
  proof (induction xs)
    case (Cons a xs)
    from bucketNames_length [of rt a] have "1 \<le> length (bucketNames rt a)" by auto
    with Cons ge [of xs] show ?case by auto
  qed simp
  from role_rows_count [OF assms] ge eq
  show "length (allAssignments (tasks props)) \<le> leafCount rs"
    and "leafCount rs = length (allAssignments (tasks props)) \<longleftrightarrow>
           (\<forall>a\<in>set (allAssignments (tasks props)). length (bucketNames rt a) = 1)"
    by simp_all
qed



text \<open>
  Claim C7 at its failing input.  The board has one feature with one assignment whose
  role is \<^verbatim>\<open>toString\<close>.  In role mode \<^verbatim>\<open>groups['toString']\<close> finds the method that
  every object inherits, no bucket is created, and the call of \<^verbatim>\<open>push\<close> on the
  method throws: the projection produces no rows at all.
\<close>

theorem role_rows_type_error:
  "rows asciiRuntime
     \<lparr>tasks = [taskExport], onTaskReorder = True, groupBy = Assignee, readOnly = False\<rparr> idle
     = Inl TypeError \<and>
   length (allAssignments [taskExport]) = 1"
  by (simp add: rows_def buildGroups_def groupAssignment_def taskExport_def assignToString_def
        asciiRuntime_def asciiUpper_def trim_def isWhiteSpace_def ascii_def str_everyone_def
        addToGroup_def Object_prototype_keys_def allAssignments_def)

end
